theory Spec2Isabelle
  imports Complex_Main
begin

section \<open>Scalars and tensors\<close>

text \<open>
  The tensors of \<^verbatim>\<open>rl4co/data/transforms.py\<close> hold floating-point numbers. A scalar is
  modelled as a real number or one of the three special values of the arithmetic; the
  finite values are computed exactly (rounding and overflow are outside the model), the
  special values follow the rules of the machine arithmetic (\<open>0/0\<close> is not a number, a
  non-zero number over zero is an infinity, not-a-number propagates).
\<close>

datatype fval = Fin real | PInf | NInf | NaN

fun fneg :: "fval \<Rightarrow> fval" where
  "fneg (Fin a) = Fin (- a)"
| "fneg PInf = NInf"
| "fneg NInf = PInf"
| "fneg NaN = NaN"

fun fadd :: "fval \<Rightarrow> fval \<Rightarrow> fval" where
  "fadd (Fin a) (Fin b) = Fin (a + b)"
| "fadd NaN _ = NaN"
| "fadd _ NaN = NaN"
| "fadd PInf NInf = NaN"
| "fadd NInf PInf = NaN"
| "fadd PInf _ = PInf"
| "fadd _ PInf = PInf"
| "fadd NInf _ = NInf"
| "fadd _ NInf = NInf"

definition fsub :: "fval \<Rightarrow> fval \<Rightarrow> fval" where
  "fsub a b = fadd a (fneg b)"

text \<open>The sign of a scalar that is not NaN: \<open>-1\<close>, \<open>0\<close> or \<open>1\<close>.\<close>

fun fsgn :: "fval \<Rightarrow> real" where
  "fsgn (Fin a) = sgn a"
| "fsgn PInf = 1"
| "fsgn NInf = - 1"
| "fsgn NaN = 0"

definition inf_of_sign :: "real \<Rightarrow> fval" where
  "inf_of_sign s = (if s = 0 then NaN else if 0 < s then PInf else NInf)"

fun fmul :: "fval \<Rightarrow> fval \<Rightarrow> fval" where
  "fmul (Fin a) (Fin b) = Fin (a * b)"
| "fmul NaN _ = NaN"
| "fmul _ NaN = NaN"
| "fmul a b = inf_of_sign (fsgn a * fsgn b)"

text \<open>
  Division. A finite non-zero number over zero is the infinity of the numerator's sign
  (the zero denominators of this program are differences \<open>x - x\<close>, which are positive
  zeros), and \<open>0/0\<close> and \<open>\<infinity>/\<infinity>\<close> are NaN.
\<close>

fun fdiv :: "fval \<Rightarrow> fval \<Rightarrow> fval" where
  "fdiv (Fin a) (Fin b) = (if b = 0 then inf_of_sign (sgn a) else Fin (a / b))"
| "fdiv NaN _ = NaN"
| "fdiv _ NaN = NaN"
| "fdiv (Fin a) _ = Fin 0"
| "fdiv a (Fin b) = inf_of_sign (fsgn a * (if b < 0 then - 1 else 1))"
| "fdiv _ _ = NaN"

text \<open>Minimum and maximum of two scalars; NaN propagates, as in \<^verbatim>\<open>Tensor.min\<close>.\<close>

fun fle :: "fval \<Rightarrow> fval \<Rightarrow> bool" where
  "fle (Fin a) (Fin b) = (a \<le> b)"
| "fle NInf _ = True"
| "fle _ PInf = True"
| "fle _ _ = False"

definition fmin :: "fval \<Rightarrow> fval \<Rightarrow> fval" where
  "fmin a b = (if a = NaN \<or> b = NaN then NaN else if fle a b then a else b)"

definition fmax :: "fval \<Rightarrow> fval \<Rightarrow> fval" where
  "fmax a b = (if a = NaN \<or> b = NaN then NaN else if fle a b then b else a)"

text \<open>
  A feature tensor of shape \<open>[batch, graph, 2]\<close> is a list of instances, each a list of
  nodes, each node a pair of coordinates. A tensor of shape \<open>[batch, graph, 1]\<close> is a
  list of lists of scalars.
\<close>

type_synonym point = "fval \<times> fval"
type_synonym tensor = "point list list"
type_synonym tensor1 = "fval list list"

datatype error =
    ValueError string
  | AssertionError
  | IndexError
  | KeyError string
  | ZeroDivisionError
  | RuntimeError

text \<open>\<^verbatim>\<open>xy.split(1, dim=2)\<close>: the two coordinate planes of a tensor.\<close>

definition split_dim2 :: "tensor \<Rightarrow> tensor1 \<times> tensor1" where
  "split_dim2 xy = (map (map fst) xy, map (map snd) xy)"

text \<open>\<^verbatim>\<open>torch.cat((a, b), dim=2)\<close> of two \<open>[batch, graph, 1]\<close> tensors.\<close>

definition cat_dim2 :: "tensor1 \<Rightarrow> tensor1 \<Rightarrow> tensor" where
  "cat_dim2 a b = map (\<lambda>(ra, rb). zip ra rb) (zip a b)"

text \<open>\<^verbatim>\<open>1 - t\<close> on a \<open>[batch, graph, 1]\<close> tensor.\<close>

definition rsub1 :: "tensor1 \<Rightarrow> tensor1" where
  "rsub1 t = map (map (\<lambda>v. fsub (Fin 1) v)) t"

section \<open>The dihedral augmentation\<close>

definition dihedral_8_augmentation :: "tensor \<Rightarrow> tensor" where
  "dihedral_8_augmentation xy =
    (let (x, y) = split_dim2 xy;
         z0 = cat_dim2 x y;
         z1 = cat_dim2 (rsub1 x) y;
         z2 = cat_dim2 x (rsub1 y);
         z3 = cat_dim2 (rsub1 x) (rsub1 y);
         z4 = cat_dim2 y x;
         z5 = cat_dim2 (rsub1 y) x;
         z6 = cat_dim2 y (rsub1 x);
         z7 = cat_dim2 (rsub1 y) (rsub1 x)
     in z0 @ z1 @ z2 @ z3 @ z4 @ z5 @ z6 @ z7)"

text \<open>
  \<^verbatim>\<open>dihedral_8_augmentation_wrapper(xy, reduce)\<close>: with \<open>reduce\<close> only the first eighth of
  the rows is augmented.
\<close>

definition dihedral_8_augmentation_wrapper :: "tensor \<Rightarrow> bool \<Rightarrow> tensor" where
  "dihedral_8_augmentation_wrapper xy reduce =
    dihedral_8_augmentation (if reduce then take (length xy div 8) xy else xy)"

text \<open>
  The \<open>k\<close>-th block of \<open>b\<close> rows of a tensor: the \<open>k\<close>-th of the images stacked along the
  batch axis.
\<close>

definition batch_slice :: "nat \<Rightarrow> nat \<Rightarrow> 'a list \<Rightarrow> 'a list" where
  "batch_slice k b t = take b (drop (k * b) t)"

text \<open>The complement \<open>1 - v\<close> of a coordinate.\<close>

definition compl1 :: "fval \<Rightarrow> fval" where
  "compl1 v = fsub (Fin 1) v"

text \<open>The eight images of a point, in the order of the source.\<close>

fun dihedral_image :: "nat \<Rightarrow> point \<Rightarrow> point" where
  "dihedral_image 0 (x, y) = (x, y)"
| "dihedral_image (Suc 0) (x, y) = (compl1 x, y)"
| "dihedral_image (Suc (Suc 0)) (x, y) = (x, compl1 y)"
| "dihedral_image (Suc (Suc (Suc 0))) (x, y) = (compl1 x, compl1 y)"
| "dihedral_image (Suc (Suc (Suc (Suc 0)))) (x, y) = (y, x)"
| "dihedral_image (Suc (Suc (Suc (Suc (Suc 0))))) (x, y) = (compl1 y, x)"
| "dihedral_image (Suc (Suc (Suc (Suc (Suc (Suc 0)))))) (x, y) = (y, compl1 x)"
| "dihedral_image (Suc (Suc (Suc (Suc (Suc (Suc (Suc n))))))) (x, y) = (compl1 y, compl1 x)"

text \<open>
  The \<open>k\<close>-th of the eight images the transform stacks for the batch \<open>xy\<close>.
\<close>

definition dihedral_slice :: "nat \<Rightarrow> tensor \<Rightarrow> tensor" where
  "dihedral_slice k xy = batch_slice k (length xy) (dihedral_8_augmentation xy)"

section \<open>The symmetric (rotation and reflection) augmentation\<close>

text \<open>
  \<^verbatim>\<open>symmetric_transform(x, y, phi, offset)\<close> is vectorized: every node of instance \<open>i\<close> is
  transformed with the angle \<open>phi[i]\<close>. The computation on one node, with the source's
  names:
\<close>

definition symmetric_transform_node :: "real \<Rightarrow> real \<Rightarrow> fval \<times> fval \<Rightarrow> point" where
  "symmetric_transform_node phi offset p =
    (let x = fsub (fst p) (Fin offset);
         y = fsub (snd p) (Fin offset);
         x_prime = fsub (fmul (Fin (cos phi)) x) (fmul (Fin (sin phi)) y);
         y_prime = fadd (fmul (Fin (sin phi)) x) (fmul (Fin (cos phi)) y);
         mask = (phi > 2 * pi);
         xy = (x_prime, y_prime);
         xy = (if mask then prod.swap xy else xy)
     in (fadd (fst xy) (Fin offset), fadd (snd xy) (Fin offset)))"

text \<open>
  \<open>x\<close> and \<open>y\<close> have shape \<open>[batch, graph, 1]\<close> and \<open>phi\<close> has shape \<open>[batch, 1, 1]\<close>, one
  angle for each instance. Operands of different shapes are a \<^verbatim>\<open>RuntimeError\<close> of the
  tensor library (shapes that differ in a dimension of size one would be broadcast
  there; the callers in this module pass equal shapes).
\<close>

definition symmetric_transform ::
  "tensor1 \<Rightarrow> tensor1 \<Rightarrow> real list \<Rightarrow> real \<Rightarrow> error + tensor" where
  "symmetric_transform x y phi offset =
    (if length x = length phi \<and> map length x = map length y
     then Inr (map (\<lambda>(p, xr, yr). map (symmetric_transform_node p offset) (zip xr yr))
                (zip phi (zip x y)))
     else Inl RuntimeError)"

text \<open>
  The stop index of the Python slice \<^verbatim>\<open>[:k]\<close> on a sequence of length \<open>n\<close> (a negative
  \<open>k\<close> counts from the end), and the slice assignment \<^verbatim>\<open>xs[:k] = v\<close> of a scalar.
\<close>

definition py_slice_stop :: "int \<Rightarrow> nat \<Rightarrow> nat" where
  "py_slice_stop k n = (if k < 0 then nat (int n + k) else min (nat k) n)"

definition set_prefix :: "int \<Rightarrow> 'a \<Rightarrow> 'a list \<Rightarrow> 'a list" where
  "set_prefix k v xs =
    replicate (py_slice_stop k (length xs)) v @ drop (py_slice_stop k (length xs)) xs"

text \<open>
  \<^verbatim>\<open>symmetric_augmentation(xy, num_augment, first_augment)\<close>. The draws of
  \<^verbatim>\<open>torch.rand\<close> are a parameter: \<open>rnd i\<close> is the draw for row \<open>i\<close>, a number of \<open>[0, 1)\<close>.
  \<^verbatim>\<open>//\<close> is the floor division of Python, which raises on a zero divisor. First the
  angles \<open>phi\<close> of a batch of \<open>b\<close> rows:
\<close>

definition symmetric_phi :: "nat \<Rightarrow> int \<Rightarrow> bool \<Rightarrow> (nat \<Rightarrow> real) \<Rightarrow> error + real list" where
  "symmetric_phi b num_augment first_augment rnd =
    (let phi = map (\<lambda>i. rnd i * 4 * pi) [0..<b] in
     if \<not> first_augment
     then (if num_augment = 0 then Inl ZeroDivisionError
           else Inr (set_prefix (int b div num_augment) 0 phi))
     else Inr phi)"

definition symmetric_augmentation ::
  "tensor \<Rightarrow> int \<Rightarrow> bool \<Rightarrow> (nat \<Rightarrow> real) \<Rightarrow> error + tensor" where
  "symmetric_augmentation xy num_augment first_augment rnd =
    (case symmetric_phi (length xy) num_augment first_augment rnd of
       Inl e \<Rightarrow> Inl e
     | Inr phi \<Rightarrow>
         let x = map (map fst) xy;
             y = map (map snd) xy
         in symmetric_transform x y phi (1 / 2))"

text \<open>Tensors of finite coordinates, and the Euclidean distance of two finite points.\<close>

definition fin_point :: "real \<times> real \<Rightarrow> point" where
  "fin_point p = (Fin (fst p), Fin (snd p))"

definition fin_tensor :: "(real \<times> real) list list \<Rightarrow> tensor" where
  "fin_tensor r = map (map fin_point) r"


text \<open>
  The rotation by \<open>phi\<close> about the point \<open>(offset, offset)\<close>, and the same followed by
  the exchange of the two axes about that point.
\<close>

definition rotate_about :: "real \<Rightarrow> real \<Rightarrow> real \<times> real \<Rightarrow> real \<times> real" where
  "rotate_about phi offset p =
    (cos phi * (fst p - offset) - sin phi * (snd p - offset) + offset,
     sin phi * (fst p - offset) + cos phi * (snd p - offset) + offset)"

definition rotate_reflect_about :: "real \<Rightarrow> real \<Rightarrow> real \<times> real \<Rightarrow> real \<times> real" where
  "rotate_reflect_about phi offset p = prod.swap (rotate_about phi offset p)"

text \<open>
  The transform as the specification words it: a pure rotation for an angle below
  \<open>2\<pi>\<close>, the rotation and the axis swap for an angle from \<open>2\<pi>\<close> on.
\<close>

definition spec_symmetric_node :: "real \<Rightarrow> real \<Rightarrow> real \<times> real \<Rightarrow> real \<times> real" where
  "spec_symmetric_node phi offset p =
    (if phi < 2 * pi then rotate_about phi offset p else rotate_reflect_about phi offset p)"

text \<open>
  What \<open>symmetric_transform_node\<close> computes on finite coordinates: the rotation, and
  the axis swap after it when the angle is greater than \<open>2\<pi>\<close>.
\<close>

definition symmetric_node :: "real \<Rightarrow> real \<Rightarrow> real \<times> real \<Rightarrow> real \<times> real" where
  "symmetric_node phi offset p =
    (if 2 * pi < phi then rotate_reflect_about phi offset p else rotate_about phi offset p)"

section \<open>The symmetric augmentation in single precision\<close>

text \<open>
  The tensors of the source hold single-precision numbers, and every operation on them
  returns the single-precision number nearest to the exact result, a tie going to the
  neighbour with the even significand. \<open>f32\<close> is this rounding for numbers in the normal
  range (24 significant bits; underflow to subnormal numbers and overflow are left
  out).
\<close>

definition round_half_even :: "real \<Rightarrow> int" where
  "round_half_even x =
    (let f = \<lfloor>x\<rfloor>; d = x - of_int f in
     if d < 1 / 2 then f else if 1 / 2 < d then f + 1 else if even f then f else f + 1)"

definition f32 :: "real \<Rightarrow> real" where
  "f32 x =
    (if x = 0 then 0
     else let u = 2 powi (\<lfloor>log 2 \<bar>x\<bar>\<rfloor> - 23)
          in of_int (round_half_even (x / u)) * u)"

text \<open>
  \<^verbatim>\<open>symmetric_transform\<close> on single-precision coordinates, with the rounding of every
  operation written out. The cosine and the sine are taken as correctly rounded, and
  the Python numbers \<^verbatim>\<open>offset\<close> and \<^verbatim>\<open>2 * math.pi\<close> enter the tensor operations as
  single-precision numbers (\<open>offset\<close> is given as one).
\<close>

definition symmetric_transform_node_f32 :: "real \<Rightarrow> real \<Rightarrow> real \<times> real \<Rightarrow> real \<times> real" where
  "symmetric_transform_node_f32 phi offset p =
    (let x = f32 (fst p - offset);
         y = f32 (snd p - offset);
         x_prime = f32 (f32 (f32 (cos phi) * x) - f32 (f32 (sin phi) * y));
         y_prime = f32 (f32 (f32 (sin phi) * x) + f32 (f32 (cos phi) * y));
         mask = (phi > f32 (2 * pi));
         xy = (x_prime, y_prime);
         xy = (if mask then prod.swap xy else xy)
     in (f32 (fst xy + offset), f32 (snd xy + offset)))"

definition symmetric_transform_f32 ::
  "real list list \<Rightarrow> real list list \<Rightarrow> real list \<Rightarrow> real \<Rightarrow> error + (real \<times> real) list list" where
  "symmetric_transform_f32 x y phi offset =
    (if length x = length phi \<and> map length x = map length y
     then Inr (map (\<lambda>(p, xr, yr). map (symmetric_transform_node_f32 p offset) (zip xr yr))
                (zip phi (zip x y)))
     else Inl RuntimeError)"

text \<open>
  \<^verbatim>\<open>symmetric_augmentation\<close> in single precision: the angle of a draw is the rounded
  product of the rounded \<open>4 * rnd i\<close> and the single-precision \<open>\<pi>\<close>; the angles set to
  \<open>0.0\<close> are exactly \<open>0\<close>.
\<close>

definition symmetric_phi_f32 :: "nat \<Rightarrow> int \<Rightarrow> bool \<Rightarrow> (nat \<Rightarrow> real) \<Rightarrow> error + real list" where
  "symmetric_phi_f32 b num_augment first_augment rnd =
    (let phi = map (\<lambda>i. f32 (f32 (rnd i * 4) * f32 pi)) [0..<b] in
     if \<not> first_augment
     then (if num_augment = 0 then Inl ZeroDivisionError
           else Inr (set_prefix (int b div num_augment) 0 phi))
     else Inr phi)"

definition symmetric_augmentation_f32 ::
  "(real \<times> real) list list \<Rightarrow> int \<Rightarrow> bool \<Rightarrow> (nat \<Rightarrow> real)
     \<Rightarrow> error + (real \<times> real) list list" where
  "symmetric_augmentation_f32 xy num_augment first_augment rnd =
    (case symmetric_phi_f32 (length xy) num_augment first_augment rnd of
       Inl e \<Rightarrow> Inl e
     | Inr phi \<Rightarrow>
         let x = map (map fst) xy;
             y = map (map snd) xy
         in symmetric_transform_f32 x y phi (1 / 2))"

text \<open>The draws of a run in which every draw is \<open>0\<close>.\<close>

definition zero_draws :: "nat \<Rightarrow> real" where
  "zero_draws i = 0"

section \<open>Normalization\<close>

text \<open>
  The scalars of a tensor in storage order, and the reductions \<^verbatim>\<open>x.min()\<close> and
  \<^verbatim>\<open>x.max()\<close> over all of them, which raise on a tensor without elements.
\<close>

definition elements :: "tensor \<Rightarrow> fval list" where
  "elements x = concat (map (\<lambda>row. concat (map (\<lambda>(a, b). [a, b]) row)) x)"

definition tensor_min :: "tensor \<Rightarrow> error + fval" where
  "tensor_min x = (case elements x of [] \<Rightarrow> Inl RuntimeError | v # vs \<Rightarrow> Inr (foldl fmin v vs))"

definition tensor_max :: "tensor \<Rightarrow> error + fval" where
  "tensor_max x = (case elements x of [] \<Rightarrow> Inl RuntimeError | v # vs \<Rightarrow> Inr (foldl fmax v vs))"

text \<open>\<^verbatim>\<open>(x - x.min()) / (x.max() - x.min())\<close>, elementwise.\<close>

definition min_max_normalize :: "tensor \<Rightarrow> error + tensor" where
  "min_max_normalize x =
    (case tensor_min x of
       Inl e \<Rightarrow> Inl e
     | Inr mn \<Rightarrow>
        (case tensor_max x of
           Inl e \<Rightarrow> Inl e
         | Inr mx \<Rightarrow>
             Inr (map (map (\<lambda>(a, b). (fdiv (fsub a mn) (fsub mx mn),
                                       fdiv (fsub b mn) (fsub mx mn)))) x)))"

section \<open>The augmentation object\<close>

text \<open>
  The function an augmentation object holds: one of the two functions of the module, or
  any other callable, which gets the tensor, \<open>num_augment\<close> and its random draws. Python
  compares functions by identity, so a custom callable is never equal to the wrapper.
\<close>

datatype augmentation =
    Dihedral8Wrapper
  | SymmetricAugmentation
  | Custom "tensor \<Rightarrow> int \<Rightarrow> (nat \<Rightarrow> real) \<Rightarrow> error + tensor"

datatype augment_fn = FnName string | FnCallable augmentation

definition get_augment_function :: "augment_fn \<Rightarrow> error + augmentation" where
  "get_augment_function augment_fn =
    (case augment_fn of
       FnCallable f \<Rightarrow> Inr f
     | FnName s \<Rightarrow>
         if s = ''dihedral8'' then Inr Dihedral8Wrapper
         else if s = ''symmetric'' then Inr SymmetricAugmentation
         else Inl (ValueError (''Unknown augment_fn: '' @ s)))"

record state_augmentation =
  self_augmentation :: augmentation
  self_feats :: "string list"
  self_num_augment :: int
  self_normalize :: bool
  self_first_aug_identity :: bool

text \<open>
  \<^verbatim>\<open>StateAugmentation.__init__\<close>. The \<^verbatim>\<open>assert\<close> is taken as enabled. The defaults of the
  source are \<open>num_augment = 8\<close>, \<open>augment_fn = 'symmetric'\<close>, \<open>first_aug_identity = True\<close>,
  \<open>normalize = False\<close> and \<open>feats = None\<close>.
\<close>

definition state_augmentation_init ::
  "int \<Rightarrow> augment_fn \<Rightarrow> bool \<Rightarrow> bool \<Rightarrow> string list option \<Rightarrow> error + state_augmentation" where
  "state_augmentation_init num_augment augment_fn first_aug_identity normalize' feats =
    (case get_augment_function augment_fn of
       Inl e \<Rightarrow> Inl e
     | Inr aug \<Rightarrow>
         if (case aug of Dihedral8Wrapper \<Rightarrow> True | _ \<Rightarrow> False) \<and> num_augment \<noteq> 8
         then Inl AssertionError
         else Inr \<lparr>self_augmentation = aug,
                   self_feats = (case feats of None \<Rightarrow> [''locs''] | Some fs \<Rightarrow> fs),
                   self_num_augment = num_augment,
                   self_normalize = normalize',
                   self_first_aug_identity = first_aug_identity\<rparr>)"

text \<open>
  A tensor dictionary with a one-dimensional batch size: the batch size and the named
  feature tensors, each with as many rows as the batch size.
\<close>

record tensordict =
  td_batch_size :: nat
  td_data :: "string \<rightharpoonup> tensor"

text \<open>
  Modelled from the spec: \<^verbatim>\<open>batchify\<close> of \<^verbatim>\<open>rl4co.utils.ops\<close> is not among the sources.
  The specification says that the augmentation "multiplies batch size by K" and gives
  the expanded shape \<open>(batch \<times> num_augment, nodes, 2)\<close>. The copies are laid out one whole
  batch after the other, the layout both augmentation functions of the module rely on
  (the first \<open>batch / num_augment\<close> rows are the copy that is kept as it is).
\<close>

definition batchify :: "'a list \<Rightarrow> int \<Rightarrow> 'a list" where
  "batchify x repeats = concat (replicate (nat repeats) x)"

definition batchify_td :: "tensordict \<Rightarrow> int \<Rightarrow> tensordict" where
  "batchify_td td repeats =
    \<lparr>td_batch_size = td_batch_size td * nat repeats,
     td_data = (\<lambda>k. map_option (\<lambda>t. batchify t repeats) (td_data td k))\<rparr>"

text \<open>
  The element \<^verbatim>\<open>t[i, j]\<close> of a tensor, read and assigned; an index out of range is an
  \<^verbatim>\<open>IndexError\<close>.
\<close>

definition get_node :: "tensor \<Rightarrow> nat \<Rightarrow> nat \<Rightarrow> error + point" where
  "get_node t i j =
    (if i < length t \<and> j < length (t ! i) then Inr (t ! i ! j) else Inl IndexError)"

definition set_node :: "tensor \<Rightarrow> nat \<Rightarrow> nat \<Rightarrow> point \<Rightarrow> error + tensor" where
  "set_node t i j v =
    (if i < length t \<and> j < length (t ! i) then Inr (t[i := (t ! i)[j := v]])
     else Inl IndexError)"

text \<open>
  \<^verbatim>\<open>self.augmentation(td_aug[feat], self.num_augment)\<close>: the second argument is
  \<open>num_augment\<close> of the symmetric augmentation (whose \<open>first_augment\<close> keeps its default
  \<open>False\<close>) and \<open>reduce\<close> of the wrapper, where a non-zero number counts as true.
\<close>

definition apply_augmentation ::
  "augmentation \<Rightarrow> tensor \<Rightarrow> int \<Rightarrow> (nat \<Rightarrow> real) \<Rightarrow> error + tensor" where
  "apply_augmentation aug xy n rnd =
    (case aug of
       Dihedral8Wrapper \<Rightarrow> Inr (dihedral_8_augmentation_wrapper xy (n \<noteq> 0))
     | SymmetricAugmentation \<Rightarrow> symmetric_augmentation xy n False rnd
     | Custom f \<Rightarrow> f xy n rnd)"

text \<open>
  The body of the loop of \<^verbatim>\<open>StateAugmentation.__call__\<close> for one feature tensor \<open>t\<close> of
  the expanded dictionary; \<open>b\<close> is \<^verbatim>\<open>*td.size()\<close>, the batch size of the dictionary before
  the expansion, so that \<^verbatim>\<open>[*td.size(), 0]\<close> is the element \<open>[b, 0]\<close>.
\<close>

definition augment_feat ::
  "state_augmentation \<Rightarrow> nat \<Rightarrow> (nat \<Rightarrow> real) \<Rightarrow> tensor \<Rightarrow> error + tensor" where
  "augment_feat self b rnd t =
    (case get_node t b 0 of
       Inl e \<Rightarrow> Inl e
     | Inr init_aug_feat \<Rightarrow>
        (case apply_augmentation (self_augmentation self) t (self_num_augment self) rnd of
           Inl e \<Rightarrow> Inl e
         | Inr aug_feat \<Rightarrow>
            (case (if self_normalize self then min_max_normalize aug_feat else Inr aug_feat) of
               Inl e \<Rightarrow> Inl e
             | Inr aug_feat \<Rightarrow>
                 if self_first_aug_identity self then set_node aug_feat b 0 init_aug_feat
                 else Inr aug_feat)))"

text \<open>
  The loop over the features. \<open>rnd k\<close> holds the random draws of the \<open>k\<close>-th call of the
  augmentation function. A feature that the dictionary lacks is a \<^verbatim>\<open>KeyError\<close>, and the
  dictionary refuses (\<^verbatim>\<open>RuntimeError\<close>) a tensor whose number of rows is not its batch
  size.
\<close>

fun call_loop ::
  "state_augmentation \<Rightarrow> nat \<Rightarrow> (nat \<Rightarrow> nat \<Rightarrow> real) \<Rightarrow> nat \<Rightarrow> string list \<Rightarrow> tensordict
     \<Rightarrow> error + tensordict" where
  "call_loop self b rnd k [] td_aug = Inr td_aug"
| "call_loop self b rnd k (feat # fs) td_aug =
    (case td_data td_aug feat of
       None \<Rightarrow> Inl (KeyError feat)
     | Some t \<Rightarrow>
        (case augment_feat self b (rnd k) t of
           Inl e \<Rightarrow> Inl e
         | Inr aug_feat \<Rightarrow>
             if length aug_feat = td_batch_size td_aug
             then call_loop self b rnd (Suc k) fs
                    (td_aug\<lparr>td_data := (td_data td_aug)(feat \<mapsto> aug_feat)\<rparr>)
             else Inl RuntimeError))"

definition state_augmentation_call ::
  "state_augmentation \<Rightarrow> (nat \<Rightarrow> nat \<Rightarrow> real) \<Rightarrow> tensordict \<Rightarrow> error + tensordict" where
  "state_augmentation_call self rnd td =
    call_loop self (td_batch_size td) rnd 0 (self_feats self)
      (batchify_td td (self_num_augment self))"

section \<open>The policy\<close>

text \<open>
  \<^verbatim>\<open>POMOPolicy.forward\<close> composes collaborators that are not among the sources: the
  embedding, the encoder, the decoder and \<^verbatim>\<open>get_log_likelihood\<close>. They are parameters
  here, functions that return a value or raise; whatever they draw at random is part of
  the function. A dictionary is a map from names to tensors of a type left open.
\<close>

record ('t, 'e, 'h, 'x) collaborators =
  init_embedding :: "(string \<rightharpoonup> 't) \<Rightarrow> error + 'e"
  encoder :: "'e \<Rightarrow> error + 'h \<times> 'x"
  decoder :: "(string \<rightharpoonup> 't) \<Rightarrow> 'h \<Rightarrow> string \<Rightarrow> error + 't \<times> 't \<times> (string \<rightharpoonup> 't)"
  get_log_likelihood :: "'t \<Rightarrow> 't \<Rightarrow> 't option \<Rightarrow> error + 't"

record 't policy_out =
  out_reward :: 't
  out_log_likelihood :: 't
  out_actions :: "'t option"

definition forward ::
  "('t, 'e, 'h, 'x) collaborators \<Rightarrow> (string \<rightharpoonup> 't) \<Rightarrow> string \<Rightarrow> string \<Rightarrow> bool
     \<Rightarrow> error + 't policy_out" where
  "forward self td phase decode_type return_actions =
    (case init_embedding self td of
       Inl e \<Rightarrow> Inl e
     | Inr embedding \<Rightarrow>
        (case encoder self embedding of
           Inl e \<Rightarrow> Inl e
         | Inr (encoded_inputs, _) \<Rightarrow>
            (case decoder self td encoded_inputs decode_type of
               Inl e \<Rightarrow> Inl e
             | Inr (log_p, actions, td') \<Rightarrow>
                (case get_log_likelihood self log_p actions (td' ''mask'') of
                   Inl e \<Rightarrow> Inl e
                 | Inr ll \<Rightarrow>
                    (case td' ''reward'' of
                       None \<Rightarrow> Inl (KeyError ''reward'')
                     | Some r \<Rightarrow>
                         Inr \<lparr>out_reward = r, out_log_likelihood = ll,
                              out_actions = (if return_actions then Some actions else None)\<rparr>)))))"

section \<open>Properties of the dihedral augmentation\<close>

lemma cat_dim2_split:
  "cat_dim2 (map (map f) xy) (map (map g) xy) = map (map (\<lambda>p. (f p, g p))) xy"
  by (simp add: cat_dim2_def zip_map_map zip_same_conv_map)

lemma rsub1_map: "rsub1 (map (map f) xy) = map (map (\<lambda>p. compl1 (f p))) xy"
  by (simp add: rsub1_def compl1_def comp_def)

lemma dihedral_image_funs:
  "dihedral_image 0 = (\<lambda>p. (fst p, snd p))"
  "dihedral_image (Suc 0) = (\<lambda>p. (compl1 (fst p), snd p))"
  "dihedral_image 2 = (\<lambda>p. (fst p, compl1 (snd p)))"
  "dihedral_image 3 = (\<lambda>p. (compl1 (fst p), compl1 (snd p)))"
  "dihedral_image 4 = (\<lambda>p. (snd p, fst p))"
  "dihedral_image 5 = (\<lambda>p. (compl1 (snd p), fst p))"
  "dihedral_image 6 = (\<lambda>p. (snd p, compl1 (fst p)))"
  "dihedral_image 7 = (\<lambda>p. (compl1 (snd p), compl1 (fst p)))"
  by (auto simp: fun_eq_iff eval_nat_numeral)

lemma dihedral_blocks:
  "dihedral_8_augmentation xy =
     map (map (dihedral_image 0)) xy @ map (map (dihedral_image 1)) xy @
     map (map (dihedral_image 2)) xy @ map (map (dihedral_image 3)) xy @
     map (map (dihedral_image 4)) xy @ map (map (dihedral_image 5)) xy @
     map (map (dihedral_image 6)) xy @ map (map (dihedral_image 7)) xy"
  by (simp add: dihedral_8_augmentation_def split_dim2_def rsub1_map cat_dim2_split
      dihedral_image_funs)

lemma dihedral_slice_image:
  "k < 8 \<Longrightarrow> dihedral_slice k xy = map (map (dihedral_image k)) xy"
proof -
  assume "k < 8"
  then consider "k = 0" | "k = 1" | "k = 2" | "k = 3" | "k = 4" | "k = 5" | "k = 6" | "k = 7"
    by linarith
  then show ?thesis
    by cases (simp_all add: dihedral_slice_def dihedral_blocks batch_slice_def)
qed

lemma compl1_compl1: "compl1 (compl1 v) = v"
  by (cases v) (simp_all add: compl1_def fsub_def)

text \<open>
  Claim C2. For a batch \<open>xy\<close> of shape \<open>(batch, nodes, 2)\<close> the result has \<open>batch \<times> 8\<close>
  rows, each with the node count of its instance, and its eight blocks of \<open>batch\<close> rows
  are, in this order, the images \<open>(x, y)\<close>, \<open>(1 - x, y)\<close>, \<open>(x, 1 - y)\<close>,
  \<open>(1 - x, 1 - y)\<close>, \<open>(y, x)\<close>, \<open>(1 - y, x)\<close>, \<open>(y, 1 - x)\<close>, \<open>(1 - y, 1 - x)\<close> of the
  batch. The first block is the batch itself, and taking the first block of the
  transform of the first block gives the batch again.
\<close>

theorem dihedral_8_augmentation_images:
  "length (dihedral_8_augmentation xy) = length xy * 8
   \<and> map length (dihedral_8_augmentation xy) = concat (replicate 8 (map length xy))
   \<and> dihedral_slice 0 xy = map (map (\<lambda>(x, y). (x, y))) xy
   \<and> dihedral_slice 1 xy = map (map (\<lambda>(x, y). (compl1 x, y))) xy
   \<and> dihedral_slice 2 xy = map (map (\<lambda>(x, y). (x, compl1 y))) xy
   \<and> dihedral_slice 3 xy = map (map (\<lambda>(x, y). (compl1 x, compl1 y))) xy
   \<and> dihedral_slice 4 xy = map (map (\<lambda>(x, y). (y, x))) xy
   \<and> dihedral_slice 5 xy = map (map (\<lambda>(x, y). (compl1 y, x))) xy
   \<and> dihedral_slice 6 xy = map (map (\<lambda>(x, y). (y, compl1 x))) xy
   \<and> dihedral_slice 7 xy = map (map (\<lambda>(x, y). (compl1 y, compl1 x))) xy
   \<and> dihedral_slice 0 xy = xy
   \<and> dihedral_slice 0 (dihedral_slice 0 xy) = xy"
proof -
  have len: "length (dihedral_8_augmentation xy) = length xy * 8"
    by (simp add: dihedral_blocks)
  have rows: "map length (dihedral_8_augmentation xy) = concat (replicate 8 (map length xy))"
    by (simp add: dihedral_blocks eval_nat_numeral comp_def)
  have id0: "dihedral_slice 0 xy = xy"
    by (simp add: dihedral_slice_image dihedral_image_funs)
  have twice: "dihedral_slice 0 (dihedral_slice 0 xy) = xy"
    by (simp add: id0)
  show ?thesis
    using len rows id0 twice
    by (simp add: dihedral_slice_image dihedral_image_funs case_prod_unfold)
qed

text \<open>
  Claim C4, as stated, fails: the sixth image \<open>(1 - y, x)\<close> is a quarter turn, and applied
  to its own output it sends the point \<open>(0, 0)\<close> to \<open>(1, 1)\<close>.
\<close>

theorem dihedral_quarter_turn_not_self_inverse:
  "dihedral_slice 5 (dihedral_slice 5 [[(Fin 0, Fin 0)]]) \<noteq> [[(Fin 0, Fin 0)]]"
  by (simp add: dihedral_slice_image dihedral_image_funs compl1_def fsub_def)

text \<open>
  Claim C4, amended. Six of the eight images (the identity, the three images that
  complement coordinates, the axis swap and the swap with both complements) are
  self-inverse; the two quarter turns \<open>(1 - y, x)\<close> and \<open>(y, 1 - x)\<close> are inverse to each
  other. So every image, transformed again by the inverse of the transform that made it,
  is the original batch.
\<close>

theorem dihedral_inverse_images:
  "dihedral_slice 0 (dihedral_slice 0 xy) = xy
   \<and> dihedral_slice 1 (dihedral_slice 1 xy) = xy
   \<and> dihedral_slice 2 (dihedral_slice 2 xy) = xy
   \<and> dihedral_slice 3 (dihedral_slice 3 xy) = xy
   \<and> dihedral_slice 4 (dihedral_slice 4 xy) = xy
   \<and> dihedral_slice 6 (dihedral_slice 5 xy) = xy
   \<and> dihedral_slice 5 (dihedral_slice 6 xy) = xy
   \<and> dihedral_slice 7 (dihedral_slice 7 xy) = xy"
  by (simp add: dihedral_slice_image dihedral_image_funs comp_def compl1_compl1)

section \<open>Properties of the symmetric augmentation\<close>

lemma symmetric_transform_node_fin:
  "symmetric_transform_node phi offset (fin_point p) =
     fin_point (symmetric_node phi offset p)"
  by (simp add: symmetric_transform_node_def fin_point_def rotate_reflect_about_def symmetric_node_def
      rotate_about_def fsub_def Let_def)

lemma zip_fst_snd: "zip (map fst xs) (map snd xs) = xs"
  by (induction xs) auto

lemma symmetric_transform_rows:
  "length phi = length xy \<Longrightarrow>
   symmetric_transform (map (map fst) xy) (map (map snd) xy) phi offset =
     Inr (map (\<lambda>(p, row). map (symmetric_transform_node p offset) row) (zip phi xy))"
proof (induction phi xy rule: list_induct2)
  case Nil
  then show ?case by (simp add: symmetric_transform_def)
next
  case (Cons p ps row rows)
  then show ?case
    by (simp add: symmetric_transform_def zip_fst_snd comp_def split: if_splits)
qed

lemma length_set_prefix: "length (set_prefix k v xs) = length xs"
  by (simp add: set_prefix_def py_slice_stop_def)

lemma symmetric_phi_length:
  "symmetric_phi b num_augment first_augment rnd = Inr phi \<Longrightarrow> length phi = b"
  by (auto simp: symmetric_phi_def Let_def length_set_prefix split: if_splits)

lemma symmetric_augmentation_rows:
  "symmetric_phi (length xy) num_augment first_augment rnd = Inr phi \<Longrightarrow>
   symmetric_augmentation xy num_augment first_augment rnd =
     Inr (map (\<lambda>(p, row). map (symmetric_transform_node p (1 / 2)) row) (zip phi xy))"
  by (simp add: symmetric_augmentation_def symmetric_phi_length symmetric_transform_rows)

lemma symmetric_transform_fin:
  assumes "length phi = length r"
  shows "symmetric_transform (map (map fst) (fin_tensor r)) (map (map snd) (fin_tensor r))
           phi offset =
     Inr (fin_tensor (map (\<lambda>(p, row). map (symmetric_node p offset) row) (zip phi r)))"
proof -
  have len: "length phi = length (fin_tensor r)"
    using assms by (simp add: fin_tensor_def)
  have "map (\<lambda>(p, row). map (symmetric_transform_node p offset) row) (zip phi (fin_tensor r))
        = fin_tensor (map (\<lambda>(p, row). map (symmetric_node p offset) row) (zip phi r))"
    by (simp add: fin_tensor_def zip_map2 comp_def case_prod_unfold symmetric_transform_node_fin)
  with symmetric_transform_rows [OF len, of offset] show ?thesis
    by simp
qed





text \<open>
  Claim C3, as stated, fails at the angle \<open>2\<pi>\<close> (the angle of the draw \<open>1/2\<close>): the claim
  puts it among the angles that swap the axes, the source tests \<^verbatim>\<open>phi > 2 * math.pi\<close> and
  does not swap there. The point \<open>(1, 0)\<close> stays \<open>(1, 0)\<close>; with the swap it would be
  \<open>(0, 1)\<close>.
\<close>

theorem symmetric_transform_reflects_above_two_pi_only:
  "symmetric_transform [[Fin 1]] [[Fin 0]] [2 * pi] (1 / 2)
     \<noteq> Inr [[fin_point (spec_symmetric_node (2 * pi) (1 / 2) (1, 0))]]"
  by (simp add: symmetric_transform_def symmetric_transform_node_def spec_symmetric_node_def
      rotate_reflect_about_def rotate_about_def fin_point_def fsub_def Let_def)

lemma symmetric_phi_first_augment:
  "symmetric_phi b num_augment True rnd = Inr (map (\<lambda>i. rnd i * 4 * pi) [0..<b])"
  by (simp add: symmetric_phi_def)

text \<open>
  Claim C3, amended. On finite coordinates \<open>symmetric_transform\<close> subtracts the offset,
  rotates by the angle of the instance and adds the offset back; an angle of at most
  \<open>2\<pi>\<close> gives the pure rotation, an angle greater than \<open>2\<pi>\<close> the rotation followed by
  the swap of the two axes. \<open>symmetric_augmentation\<close> (here with \<open>first_augment\<close> set, so
  that no angle is overwritten) uses the offset \<open>1/2\<close> and the angle \<open>4\<pi>u\<close> of the draw
  \<open>u\<close>, so the reflection happens exactly for the draws above \<open>1/2\<close>, the upper half of
  \<open>[0, 1)\<close>.
\<close>

theorem symmetric_transform_rotation_reflection:
  assumes "length phi = length r"
  shows "symmetric_transform (map (map fst) (fin_tensor r)) (map (map snd) (fin_tensor r))
           phi offset =
           Inr (fin_tensor (map (\<lambda>(p, row). map (symmetric_node p offset) row) (zip phi r)))
    \<and> symmetric_node p offset q =
        (if 2 * pi < p then prod.swap (rotate_about p offset q) else rotate_about p offset q)
    \<and> symmetric_augmentation (fin_tensor r) num_augment True rnd =
        Inr (fin_tensor (map (\<lambda>(i, row). map (symmetric_node (rnd i * 4 * pi) (1 / 2)) row)
               (zip [0..<length r] r)))
    \<and> symmetric_node (u * 4 * pi) offset q =
        (if 1 / 2 < u then prod.swap (rotate_about (u * 4 * pi) offset q)
         else rotate_about (u * 4 * pi) offset q)"
proof -
  have a: "symmetric_transform (map (map fst) (fin_tensor r)) (map (map snd) (fin_tensor r))
           phi offset =
           Inr (fin_tensor (map (\<lambda>(p, row). map (symmetric_node p offset) row) (zip phi r)))"
    using assms by (rule symmetric_transform_fin)
  have b: "symmetric_node p offset q =
        (if 2 * pi < p then prod.swap (rotate_about p offset q) else rotate_about p offset q)"
    by (simp add: symmetric_node_def rotate_reflect_about_def)
  have len: "length (map (\<lambda>i. rnd i * 4 * pi) [0..<length r]) = length r"
    by simp
  have phi: "symmetric_phi (length (fin_tensor r)) num_augment True rnd =
      Inr (map (\<lambda>i. rnd i * 4 * pi) [0..<length r])"
    by (simp add: symmetric_phi_first_augment fin_tensor_def)
  have c: "symmetric_augmentation (fin_tensor r) num_augment True rnd =
        Inr (fin_tensor (map (\<lambda>(i, row). map (symmetric_node (rnd i * 4 * pi) (1 / 2)) row)
               (zip [0..<length r] r)))"
    using symmetric_transform_fin [OF len, of "1 / 2"]
    by (simp add: symmetric_augmentation_def phi zip_map1 case_prod_unfold comp_def)
  have "(2 * pi < u * 4 * pi) = (1 / 2 < u)"
    by (simp add: field_simps)
  then have d: "symmetric_node (u * 4 * pi) offset q =
        (if 1 / 2 < u then prod.swap (rotate_about (u * 4 * pi) offset q)
         else rotate_about (u * 4 * pi) offset q)"
    by (simp add: symmetric_node_def rotate_reflect_about_def)
  from a b c d show ?thesis by blast
qed

theorem symmetric_transform_rotation_reflection_witness:
  "length [pi] = length [[(1 :: real, 1 / 2 :: real)]]
   \<and> symmetric_transform [[Fin 1]] [[Fin (1 / 2)]] [pi] (1 / 2) = Inr [[(Fin 0, Fin (1 / 2))]]"
proof -
  have h: "length [pi] = length [[(1 :: real, 1 / 2 :: real)]]" by simp
  show ?thesis
    using symmetric_transform_rotation_reflection [OF h, of "1 / 2"]
    by (simp add: fin_tensor_def fin_point_def symmetric_node_def rotate_about_def)
qed




lemma symmetric_node_zero: "symmetric_node 0 offset p = p"
  by (simp add: symmetric_node_def rotate_about_def)

lemma map_symmetric_node_zero: "map (symmetric_node 0 offset) xs = xs"
  by (induction xs) (simp_all add: symmetric_node_zero)

lemma floor_div_le: "0 < n \<Longrightarrow> nat (int b div n) \<le> b"
  by (smt (verit) div_by_1 int_nat_eq nat_le_iff of_nat_0_le_iff zdiv_mono2 zero_less_one)

lemma floor_div_nonpos: "n < 0 \<Longrightarrow> nat (int b div n) = 0"
  by (simp add: div_nonneg_neg_le0)

lemma leading_le_stop:
  assumes "n \<noteq> 0"
  shows "nat (int b div n) \<le> py_slice_stop (int b div n) b"
proof (cases "0 < n")
  case True
  then have "0 \<le> int b div n" by (simp add: pos_imp_zdiv_nonneg_iff)
  with floor_div_le [OF True, of b] show ?thesis
    by (simp add: py_slice_stop_def)
next
  case False
  with assms have "n < 0" by simp
  then show ?thesis by (simp add: floor_div_nonpos)
qed

lemma set_prefix_nth:
  "i < py_slice_stop k (length xs) \<Longrightarrow> set_prefix k v xs ! i = v"
  by (simp add: set_prefix_def nth_append)

lemma py_slice_stop_le: "py_slice_stop k n \<le> n"
  by (auto simp: py_slice_stop_def)

lemma floor_log2_eqI:
  assumes "2 powi k \<le> x" "x < 2 powi (k + 1)"
  shows "\<lfloor>log 2 x\<rfloor> = k"
proof -
  have pos: "0 < x" using assms(1) by (smt (verit) zero_less_power_int)
  have a: "(2::real) powr (of_int k) = 2 powi k"
    by (simp add: powr_real_of_int')
  have "(2::real) powr (of_int (k + 1)) = 2 powi (k + 1)"
    by (rule powr_real_of_int') simp_all
  then have b: "(2::real) powr (of_int k + 1) = 2 powi (k + 1)"
    by simp
  have "2 powr (of_int k) \<le> x \<and> x < 2 powr (of_int k + 1)"
    using assms by (simp only: a b)
  then show ?thesis
    using floor_log_eq_powr_iff [of x 2 k] pos by simp
qed

lemma f32_eval:
  assumes "2 powi k \<le> \<bar>x\<bar>" "\<bar>x\<bar> < 2 powi (k + 1)"
  shows "f32 x = of_int (round_half_even (x / 2 powi (k - 23))) * 2 powi (k - 23)"
proof -
  have "x \<noteq> 0" using assms(1) by (smt (verit) zero_less_power_int)
  with floor_log2_eqI [OF assms] show ?thesis
    by (simp add: f32_def Let_def)
qed

lemma f32_0: "f32 0 = 0"
  by (simp add: f32_def)

lemma f32_1: "f32 1 = 1"
  using f32_eval [of 0 1] by (simp add: round_half_even_def)

lemma f32_minus_half: "f32 (- (1 / 2)) = - (1 / 2)"
  using f32_eval [of "- 1" "- (1 / 2)"] by (simp add: round_half_even_def)

lemma f32_quarter: "f32 (1 / 4) = 1 / 4"
  using f32_eval [of "- 2" "1 / 4"] by (simp add: round_half_even_def)

lemma f32_minus_quarter: "f32 (- (1 / 4)) = - (1 / 4)"
  using f32_eval [of "- 2" "- (1 / 4)"] by (simp add: round_half_even_def)

text \<open>The difference \<open>2\<^sup>-\<^sup>2\<^sup>7 - 1/2\<close> is not a single-precision number; it rounds to \<open>-1/2\<close>.\<close>

lemma f32_small_minus_half: "f32 (1 / 2 ^ 27 - 1 / 2) = - (1 / 2)"
  using f32_eval [of "- 2" "1 / 2 ^ 27 - 1 / 2"] by (simp add: round_half_even_def)

lemma f32_small_minus_half_numeral: "f32 (- (67108863 / 134217728)) = - (1 / 2)"
  using f32_small_minus_half by simp

lemma round_half_even_nonneg: "0 \<le> x \<Longrightarrow> 0 \<le> round_half_even x"
  by (simp add: round_half_even_def Let_def)

lemma f32_nonneg: "0 \<le> x \<Longrightarrow> 0 \<le> f32 x"
  by (simp add: f32_def Let_def round_half_even_nonneg)

lemma symmetric_transform_node_f32_example:
  "symmetric_transform_node_f32 0 (1 / 2) (1 / 2 ^ 27, 1 / 4) = (0, 1 / 4)"
proof -
  have "\<not> 0 > f32 (2 * pi)"
    using f32_nonneg [of "2 * pi"] by simp
  then show ?thesis
    by (simp add: symmetric_transform_node_f32_def f32_0 f32_1 f32_minus_half f32_quarter
        f32_minus_quarter f32_small_minus_half_numeral)
qed

lemma symmetric_transform_node_f32_example_numeral:
  "symmetric_transform_node_f32 0 (1 / 2) (1 / 134217728, 1 / 4) = (0, 1 / 4)"
  using symmetric_transform_node_f32_example by simp

text \<open>
  Claim C10, as stated, fails in the arithmetic of the source. For the batch with the
  one node \<open>(2\<^sup>-\<^sup>2\<^sup>7, 1/4)\<close> and \<open>num_augment = 1\<close> the angle of the row is set to \<open>0\<close>, and
  the row comes back as \<open>(0, 1/4)\<close>: \<open>2\<^sup>-\<^sup>2\<^sup>7 - 0.5\<close> rounds to \<open>-0.5\<close>, and adding the offset
  back gives \<open>0\<close>. The transform with the angle \<open>0\<close> is not the identity map there.
\<close>

theorem symmetric_augmentation_rounds_leading_row:
  "symmetric_augmentation_f32 [[(1 / 2 ^ 27, 1 / 4)]] 1 False zero_draws = Inr [[(0, 1 / 4)]]
   \<and> symmetric_augmentation_f32 [[(1 / 2 ^ 27, 1 / 4)]] 1 False zero_draws
       \<noteq> Inr [[(1 / 2 ^ 27, 1 / 4)]]
   \<and> symmetric_transform_f32 [[1 / 2 ^ 27]] [[1 / 4]] [0] (1 / 2) = Inr [[(0, 1 / 4)]]"
  by (simp add: symmetric_augmentation_f32_def symmetric_phi_f32_def set_prefix_def
      py_slice_stop_def symmetric_transform_f32_def
      symmetric_transform_node_f32_example_numeral)

text \<open>
  Claim C10, amended. With \<open>first_augment = False\<close> and a non-zero \<open>num_augment\<close> (a zero
  one is a \<^verbatim>\<open>ZeroDivisionError\<close>), \<open>symmetric_augmentation\<close> sets the angle of the first
  \<open>\<lfloor>batch / num_augment\<rfloor>\<close> rows to \<open>0\<close>. With the angle \<open>0\<close> there is no reflection, and
  in exact arithmetic the transform of a node is the node itself (for every offset, on
  finite coordinates); so, computed exactly, the first \<open>\<lfloor>batch / num_augment\<rfloor>\<close> rows of
  the result are the rows of the input. In single precision they are the input rows up
  to the rounding of \<open>(x - 0.5) + 0.5\<close> only.
\<close>

theorem symmetric_augmentation_leading_rows:
  assumes "num_augment \<noteq> 0"
  shows "\<exists>phi out.
      symmetric_phi (length r) num_augment False rnd = Inr phi
    \<and> length phi = length r
    \<and> take (nat (int (length r) div num_augment)) phi
        = replicate (nat (int (length r) div num_augment)) 0
    \<and> symmetric_transform_node 0 offset (fin_point p) = fin_point p
    \<and> symmetric_augmentation (fin_tensor r) num_augment False rnd = Inr out
    \<and> length out = length r
    \<and> take (nat (int (length r) div num_augment)) out
        = take (nat (int (length r) div num_augment)) (fin_tensor r)"
proof -
  let ?b = "length r"
  let ?k = "nat (int ?b div num_augment)"
  let ?stop = "py_slice_stop (int ?b div num_augment) ?b"
  let ?phi = "set_prefix (int ?b div num_augment) 0 (map (\<lambda>i. rnd i * 4 * pi) [0..<?b])"
  let ?out = "map (\<lambda>(p, row). map (symmetric_node p (1 / 2)) row) (zip ?phi r)"
  have k: "?k \<le> ?stop" using assms by (rule leading_le_stop)
  have stop: "?stop \<le> ?b" by (rule py_slice_stop_le)
  have kb: "?k \<le> ?b" using k stop by (rule order_trans)
  have phi: "symmetric_phi ?b num_augment False rnd = Inr ?phi"
    using assms by (simp add: symmetric_phi_def)
  have len: "length ?phi = ?b" by (simp add: length_set_prefix)
  have zero: "?phi ! i = 0" if "i < ?k" for i
  proof -
    from that k have "i < py_slice_stop (int ?b div num_augment)
        (length (map (\<lambda>i. rnd i * 4 * pi) [0..<?b]))"
      by simp
    then show ?thesis by (rule set_prefix_nth)
  qed
  have lead: "take ?k ?phi = replicate ?k 0"
  proof (rule nth_equalityI)
    show "length (take ?k ?phi) = length (replicate ?k (0::real))"
      using kb len by simp
  next
    fix i assume "i < length (take ?k ?phi)"
    then have i: "i < ?k" by simp
    then show "take ?k ?phi ! i = replicate ?k 0 ! i"
      using zero [OF i] by simp
  qed
  have aug: "symmetric_augmentation (fin_tensor r) num_augment False rnd = Inr (fin_tensor ?out)"
  proof -
    have "symmetric_phi (length (fin_tensor r)) num_augment False rnd = Inr ?phi"
      using phi by (simp add: fin_tensor_def)
    then show ?thesis
      using symmetric_transform_fin [OF len, of "1 / 2"]
      by (simp add: symmetric_augmentation_def)
  qed
  have lout: "length (fin_tensor ?out) = ?b"
    using len by (simp add: fin_tensor_def)
  have rows: "take ?k (fin_tensor ?out) = take ?k (fin_tensor r)"
  proof (rule nth_equalityI)
    show "length (take ?k (fin_tensor ?out)) = length (take ?k (fin_tensor r))"
      using lout by (simp add: fin_tensor_def)
  next
    fix i assume "i < length (take ?k (fin_tensor ?out))"
    then have i: "i < ?k" by simp
    with kb have ib: "i < ?b" by simp
    have "?out ! i = map (symmetric_node (?phi ! i) (1 / 2)) (r ! i)"
      using ib len by simp
    then have "?out ! i = r ! i"
      using zero [OF i] by (simp add: map_symmetric_node_zero)
    then have "fin_tensor ?out ! i = fin_tensor r ! i"
      using ib len by (simp add: fin_tensor_def)
    then show "take ?k (fin_tensor ?out) ! i = take ?k (fin_tensor r) ! i"
      using i by simp
  qed
  have node: "symmetric_transform_node 0 offset (fin_point p) = fin_point p"
    by (simp add: symmetric_transform_node_fin symmetric_node_zero)
  from phi len lead aug lout rows node show ?thesis
    by blast
qed

theorem symmetric_augmentation_leading_rows_witness:
  "(2 :: int) \<noteq> 0
   \<and> (\<exists>out. symmetric_augmentation [[(Fin 0, Fin 1)], [(Fin 0, Fin 1)]] 2 False (\<lambda>i. 1 / 4)
            = Inr out
          \<and> take 1 out = [[(Fin 0, Fin 1)]])"
proof -
  have h: "(2 :: int) \<noteq> 0" by simp
  from symmetric_augmentation_leading_rows [OF h, of "[[(0, 1)], [(0, 1)]]" "\<lambda>i. 1 / 4" 0 "(0, 0)"]
  obtain out where
    "symmetric_augmentation (fin_tensor [[(0, 1)], [(0, 1)]]) 2 False (\<lambda>i. 1 / 4) = Inr out"
    "take (nat (int (length [[(0 :: real, 1 :: real)], [(0, 1)]]) div 2)) out
       = take (nat (int (length [[(0 :: real, 1 :: real)], [(0, 1)]]) div 2))
           (fin_tensor [[(0, 1)], [(0, 1)]])"
    by blast
  then have "symmetric_augmentation [[(Fin 0, Fin 1)], [(Fin 0, Fin 1)]] 2 False (\<lambda>i. 1 / 4)
            = Inr out \<and> take 1 out = [[(Fin 0, Fin 1)]]"
    by (simp add: fin_tensor_def fin_point_def)
  with h show ?thesis by blast
qed


section \<open>Properties of the augmentation object and of the policy\<close>

text \<open>
  Claim C5. The constructor fails for the name \<open>dihedral8\<close> with any \<open>num_augment\<close> other
  than \<open>8\<close> (the assertion) and for any name other than \<open>dihedral8\<close> and \<open>symmetric\<close> (the
  \<^verbatim>\<open>ValueError\<close> of \<open>get_augment_function\<close>), whatever the other arguments. Both are results
  of the constructor: no object exists on which \<^verbatim>\<open>__call__\<close> could run.
\<close>

theorem state_augmentation_init_rejects:
  assumes "num_augment \<noteq> 8" and "name \<noteq> ''dihedral8''" and "name \<noteq> ''symmetric''"
  shows "state_augmentation_init num_augment (FnName ''dihedral8'') first_aug_identity nrm feats
           = Inl AssertionError
       \<and> state_augmentation_init n (FnName name) first_aug_identity nrm feats
           = Inl (ValueError (''Unknown augment_fn: '' @ name))"
  using assms by (simp add: state_augmentation_init_def get_augment_function_def)

theorem state_augmentation_init_rejects_witness:
  "(4 :: int) \<noteq> 8 \<and> ''unknown'' \<noteq> ''dihedral8'' \<and> ''unknown'' \<noteq> ''symmetric''
   \<and> state_augmentation_init 4 (FnName ''dihedral8'') True False None = Inl AssertionError
   \<and> state_augmentation_init 8 (FnName ''unknown'') True False None
       = Inl (ValueError ''Unknown augment_fn: unknown'')"
proof -
  have h1: "(4 :: int) \<noteq> 8" by simp
  have h2: "''unknown'' \<noteq> ''dihedral8''" by simp
  have h3: "''unknown'' \<noteq> ''symmetric''" by simp
  show ?thesis
    using state_augmentation_init_rejects [OF h1 h2 h3, of True False None 8]
    by simp
qed

text \<open>
  Claim C9. \<open>forward\<close> returns the same result (the reward, the log-likelihood and the
  actions, or the same error) for the phases \<open>train\<close> and \<open>eval\<close>, and for any two phases,
  when the dictionary, the decode type, the flag and the collaborators are the same.
\<close>

theorem forward_ignores_phase:
  "forward self td ''train'' decode_type return_actions
    = forward self td ''eval'' decode_type return_actions
   \<and> forward self td phase decode_type return_actions
    = forward self td phase' decode_type return_actions"
  by (simp add: forward_def)

text \<open>
  Claim C6, as stated, fails: on the constant tensor with the single node \<open>(1, 1)\<close> the
  normalization is not skipped; it divides \<open>0\<close> by \<open>0\<close> and returns NaN in both entries.
\<close>

theorem min_max_normalize_constant_is_nan:
  "min_max_normalize [[(Fin 1, Fin 1)]] = Inr [[(NaN, NaN)]]
   \<and> min_max_normalize [[(Fin 1, Fin 1)]] \<noteq> Inr [[(Fin 1, Fin 1)]]"
  by (simp add: min_max_normalize_def tensor_min_def tensor_max_def elements_def fmin_def
      fmax_def fsub_def inf_of_sign_def)


lemma foldl_fmin_const: "\<forall>v\<in>set vs. v = Fin c \<Longrightarrow> foldl fmin (Fin c) vs = Fin c"
  by (induction vs) (simp_all add: fmin_def)

lemma foldl_fmax_const: "\<forall>v\<in>set vs. v = Fin c \<Longrightarrow> foldl fmax (Fin c) vs = Fin c"
  by (induction vs) (simp_all add: fmax_def)

lemma tensor_min_const:
  assumes "set (elements x) = {Fin c}"
  shows "tensor_min x = Inr (Fin c)" "tensor_max x = Inr (Fin c)"
proof -
  from assms obtain v vs where e: "elements x = v # vs"
    by (cases "elements x") auto
  with assms have "v = Fin c" "\<forall>u\<in>set vs. u = Fin c" by auto
  then show "tensor_min x = Inr (Fin c)" "tensor_max x = Inr (Fin c)"
    by (simp_all add: tensor_min_def tensor_max_def e foldl_fmin_const foldl_fmax_const)
qed

lemma in_elements:
  "row \<in> set x \<Longrightarrow> (a, b) \<in> set row \<Longrightarrow> a \<in> set (elements x) \<and> b \<in> set (elements x)"
  by (force simp: elements_def)

lemma fdiv_zero_zero: "fdiv (fsub (Fin c) (Fin c)) (fsub (Fin c) (Fin c)) = NaN"
  by (simp add: fsub_def inf_of_sign_def)

text \<open>
  Claim C6, amended. The normalization has no test of the range. On every tensor whose
  entries all are the same finite number, minimum and maximum are that number, every
  entry becomes \<open>0/0\<close>, and the function returns the tensor of the same shape that holds
  NaN in every entry.
\<close>

theorem min_max_normalize_constant:
  assumes "set (elements x) = {Fin c}"
  shows "min_max_normalize x = Inr (map (map (\<lambda>p. (NaN, NaN))) x)"
proof -
  have "(case p of (a, b) \<Rightarrow> (fdiv (fsub a (Fin c)) (fsub (Fin c) (Fin c)),
                               fdiv (fsub b (Fin c)) (fsub (Fin c) (Fin c)))) = (NaN, NaN)"
    if "row \<in> set x" "p \<in> set row" for row p
  proof -
    obtain a b where p: "p = (a, b)" by (cases p)
    with that in_elements [of row x a b] assms have "a = Fin c" "b = Fin c" by auto
    with p show ?thesis by (simp add: fdiv_zero_zero)
  qed
  then have "map (map (\<lambda>(a, b). (fdiv (fsub a (Fin c)) (fsub (Fin c) (Fin c)),
                               fdiv (fsub b (Fin c)) (fsub (Fin c) (Fin c))))) x
             = map (map (\<lambda>p. (NaN, NaN))) x"
    by (simp cong: map_cong)
  then show ?thesis
    by (simp add: min_max_normalize_def tensor_min_const [OF assms])
qed

theorem min_max_normalize_constant_witness:
  "set (elements [[(Fin 2, Fin 2), (Fin 2, Fin 2)]]) = {Fin 2}
   \<and> min_max_normalize [[(Fin 2, Fin 2), (Fin 2, Fin 2)]] = Inr [[(NaN, NaN), (NaN, NaN)]]"
proof -
  have h: "set (elements [[(Fin 2, Fin 2), (Fin 2, Fin 2)]]) = {Fin 2}"
    by (simp add: elements_def)
  show ?thesis
    using h min_max_normalize_constant [OF h] by simp
qed


section \<open>Properties of the call of the augmentation object\<close>

lemma call_loop_other:
  "call_loop self b rnd k fs td_aug = Inr out \<Longrightarrow> f \<notin> set fs
    \<Longrightarrow> td_data out f = td_data td_aug f"
proof (induction fs arbitrary: k td_aug)
  case Nil
  then show ?case by simp
next
  case (Cons feat fs)
  then show ?case
    by (auto split: option.splits sum.splits if_splits)
qed

lemma call_loop_nth:
  "call_loop self b rnd k fs td_aug = Inr out \<Longrightarrow> distinct fs \<Longrightarrow> i < length fs
    \<Longrightarrow> \<exists>t res. td_data td_aug (fs ! i) = Some t
          \<and> augment_feat self b (rnd (k + i)) t = Inr res
          \<and> td_data out (fs ! i) = Some res"
proof (induction fs arbitrary: k td_aug i)
  case Nil
  then show ?case by simp
next
  case (Cons feat fs)
  from Cons.prems(1) obtain t a where
    t: "td_data td_aug feat = Some t" and
    a: "augment_feat self b (rnd k) t = Inr a" and
    rest: "call_loop self b rnd (Suc k) fs
             (td_aug\<lparr>td_data := (td_data td_aug)(feat \<mapsto> a)\<rparr>) = Inr out"
    by (auto split: option.splits sum.splits if_splits)
  from Cons.prems(2) have nin: "feat \<notin> set fs" and dist: "distinct fs" by simp_all
  show ?case
  proof (cases i)
    case 0
    from call_loop_other [OF rest nin] have "td_data out feat = Some a" by simp
    with 0 t a show ?thesis by simp
  next
    case (Suc j)
    with Cons.prems(3) have j: "j < length fs" by simp
    from Cons.IH [OF rest dist j] obtain t' res where
      "td_data (td_aug\<lparr>td_data := (td_data td_aug)(feat \<mapsto> a)\<rparr>) (fs ! j) = Some t'"
      "augment_feat self b (rnd (Suc k + j)) t' = Inr res"
      "td_data out (fs ! j) = Some res"
      by blast
    moreover from j nin have "fs ! j \<noteq> feat" by auto
    ultimately show ?thesis using Suc by auto
  qed
qed

lemma augment_feat_normalize_restore:
  assumes "self_normalize self" "self_first_aug_identity self"
    "augment_feat self b rnd t = Inr res"
  shows "\<exists>orig aug nrm. get_node t b 0 = Inr orig
      \<and> apply_augmentation (self_augmentation self) t (self_num_augment self) rnd = Inr aug
      \<and> min_max_normalize aug = Inr nrm
      \<and> set_node nrm b 0 orig = Inr res
      \<and> get_node res b 0 = Inr orig"
proof -
  from assms obtain orig aug nrm where
    1: "get_node t b 0 = Inr orig" and
    2: "apply_augmentation (self_augmentation self) t (self_num_augment self) rnd = Inr aug" and
    3: "min_max_normalize aug = Inr nrm" and
    4: "set_node nrm b 0 orig = Inr res"
    by (auto simp: augment_feat_def split: sum.splits)
  from 4 have "get_node res b 0 = Inr orig"
    by (auto simp: set_node_def get_node_def split: if_splits)
  with 1 2 3 4 show ?thesis by blast
qed

text \<open>
  The order of the steps. Let the object have \<open>normalize\<close> and \<open>first_aug_identity\<close> set,
  let the listed features be distinct, and let \<^verbatim>\<open>__call__\<close> return. Then for every listed
  feature the result holds the tensor obtained in this order: the augmentation function
  is applied to the expanded input tensor, \<open>min_max_normalize\<close> is applied to the output
  of the augmentation, and the restoring assignment is made on the normalized tensor,
  with the value read from the expanded input at the element \<open>[batch, 0]\<close>.
\<close>

lemma call_order_of_steps:
  assumes "self_normalize self" and "self_first_aug_identity self"
    and "distinct (self_feats self)" and "i < length (self_feats self)"
    and "state_augmentation_call self rnd td = Inr out"
  shows "\<exists>t orig aug nrm res.
        td_data td (self_feats self ! i) = Some t
      \<and> get_node (batchify t (self_num_augment self)) (td_batch_size td) 0 = Inr orig
      \<and> apply_augmentation (self_augmentation self) (batchify t (self_num_augment self))
           (self_num_augment self) (rnd i) = Inr aug
      \<and> min_max_normalize aug = Inr nrm
      \<and> set_node nrm (td_batch_size td) 0 orig = Inr res
      \<and> td_data out (self_feats self ! i) = Some res
      \<and> get_node res (td_batch_size td) 0 = Inr orig"
proof -
  from assms(5) have loop: "call_loop self (td_batch_size td) rnd 0 (self_feats self)
      (batchify_td td (self_num_augment self)) = Inr out"
    by (simp add: state_augmentation_call_def)
  from call_loop_nth [OF loop assms(3) assms(4)] obtain t' res where
    t': "td_data (batchify_td td (self_num_augment self)) (self_feats self ! i) = Some t'" and
    res: "augment_feat self (td_batch_size td) (rnd i) t' = Inr res" and
    out: "td_data out (self_feats self ! i) = Some res"
    by auto
  from t' obtain t where t: "td_data td (self_feats self ! i) = Some t"
    and tt: "t' = batchify t (self_num_augment self)"
    by (auto simp: batchify_td_def)
  from augment_feat_normalize_restore [OF assms(1) assms(2) res] t tt out
  show ?thesis by blast
qed


text \<open>
  An example used below: one instance with the nodes \<open>(0, 0)\<close> and \<open>(1, 0)\<close>, expanded
  twice, and the draw \<open>1/4\<close> for every row, which is the angle \<open>\<pi>\<close>.
\<close>

lemma symmetric_example:
  "symmetric_augmentation [[(Fin 0, Fin 0), (Fin 1, Fin 0)], [(Fin 0, Fin 0), (Fin 1, Fin 0)]]
     2 first_augment (\<lambda>i. 1 / 4)
    = Inr [if first_augment then [(Fin 1, Fin 1), (Fin 0, Fin 1)]
           else [(Fin 0, Fin 0), (Fin 1, Fin 0)],
           [(Fin 1, Fin 1), (Fin 0, Fin 1)]]"
  by (simp add: symmetric_augmentation_def symmetric_phi_def set_prefix_def py_slice_stop_def
      symmetric_transform_def symmetric_transform_node_def fsub_def Let_def upt_rec)

text \<open>
  A second example: one instance with the single node \<open>(1/4, 1/2)\<close>, the dihedral
  augmentation and the normalization. The coordinates of the eight images lie between
  \<open>1/4\<close> and \<open>3/4\<close>, so the normalization maps \<open>v\<close> to \<open>2v - 1/2\<close>.
\<close>

lemma dihedral_example:
  "dihedral_8_augmentation [[(Fin (1 / 4), Fin (1 / 2))]]
    = [[(Fin (1 / 4), Fin (1 / 2))], [(Fin (3 / 4), Fin (1 / 2))],
       [(Fin (1 / 4), Fin (1 / 2))], [(Fin (3 / 4), Fin (1 / 2))],
       [(Fin (1 / 2), Fin (1 / 4))], [(Fin (1 / 2), Fin (1 / 4))],
       [(Fin (1 / 2), Fin (3 / 4))], [(Fin (1 / 2), Fin (3 / 4))]]"
  by (simp add: dihedral_blocks dihedral_image_funs compl1_def fsub_def)

lemma fmin_fin: "fmin (Fin a) (Fin b) = Fin (min a b)"
  by (simp add: fmin_def min_def)

lemma fmax_fin: "fmax (Fin a) (Fin b) = Fin (max a b)"
  by (simp add: fmax_def max_def)

lemma normalize_dihedral_example:
  "min_max_normalize
      [[(Fin (1 / 4), Fin (1 / 2))], [(Fin (3 / 4), Fin (1 / 2))],
       [(Fin (1 / 4), Fin (1 / 2))], [(Fin (3 / 4), Fin (1 / 2))],
       [(Fin (1 / 2), Fin (1 / 4))], [(Fin (1 / 2), Fin (1 / 4))],
       [(Fin (1 / 2), Fin (3 / 4))], [(Fin (1 / 2), Fin (3 / 4))]]
    = Inr [[(Fin 0, Fin (1 / 2))], [(Fin 1, Fin (1 / 2))],
       [(Fin 0, Fin (1 / 2))], [(Fin 1, Fin (1 / 2))],
       [(Fin (1 / 2), Fin 0)], [(Fin (1 / 2), Fin 0)],
       [(Fin (1 / 2), Fin 1)], [(Fin (1 / 2), Fin 1)]]"
  by (simp add: min_max_normalize_def tensor_min_def tensor_max_def elements_def fmin_fin
      fmax_fin fsub_def)

lemma batchify_example:
  "batchify [[(Fin (1 / 4), Fin (1 / 2))]] 8 = replicate 8 [(Fin (1 / 4), Fin (1 / 2))]"
  by (simp add: batchify_def eval_nat_numeral)

lemma wrapper_example:
  "dihedral_8_augmentation_wrapper (replicate 8 [(Fin (1 / 4), Fin (1 / 2))]) True
    = dihedral_8_augmentation [[(Fin (1 / 4), Fin (1 / 2))]]"
  by (simp add: dihedral_8_augmentation_wrapper_def)

lemma get_node_example:
  "get_node (replicate 8 [(Fin (1 / 4), Fin (1 / 2))]) (Suc 0) 0
      = Inr (Fin (1 / 4), Fin (1 / 2))"
  by (simp add: get_node_def)

lemma apply_augmentation_example:
  "apply_augmentation Dihedral8Wrapper (replicate 8 [(Fin (1 / 4), Fin (1 / 2))]) 8 r
    = Inr [[(Fin (1 / 4), Fin (1 / 2))], [(Fin (3 / 4), Fin (1 / 2))],
       [(Fin (1 / 4), Fin (1 / 2))], [(Fin (3 / 4), Fin (1 / 2))],
       [(Fin (1 / 2), Fin (1 / 4))], [(Fin (1 / 2), Fin (1 / 4))],
       [(Fin (1 / 2), Fin (3 / 4))], [(Fin (1 / 2), Fin (3 / 4))]]"
proof -
  have "(8 :: int) \<noteq> 0" by simp
  then show ?thesis
    by (simp only: apply_augmentation_def augmentation.case wrapper_example dihedral_example
        simp_thms)
qed

lemma set_node_example:
  "set_node [[(Fin 0, Fin (1 / 2))], [(Fin 1, Fin (1 / 2))],
       [(Fin 0, Fin (1 / 2))], [(Fin 1, Fin (1 / 2))],
       [(Fin (1 / 2), Fin 0)], [(Fin (1 / 2), Fin 0)],
       [(Fin (1 / 2), Fin 1)], [(Fin (1 / 2), Fin 1)]] (Suc 0) 0 (Fin (1 / 4), Fin (1 / 2))
   = Inr [[(Fin 0, Fin (1 / 2))], [(Fin (1 / 4), Fin (1 / 2))],
          [(Fin 0, Fin (1 / 2))], [(Fin 1, Fin (1 / 2))],
          [(Fin (1 / 2), Fin 0)], [(Fin (1 / 2), Fin 0)],
          [(Fin (1 / 2), Fin 1)], [(Fin (1 / 2), Fin 1)]]"
  by (simp add: set_node_def)


lemma augment_feat_example:
  "augment_feat
     \<lparr>self_augmentation = Dihedral8Wrapper, self_feats = [''locs''], self_num_augment = 8,
      self_normalize = True, self_first_aug_identity = True\<rparr>
     (Suc 0) r (replicate 8 [(Fin (1 / 4), Fin (1 / 2))])
   = Inr [[(Fin 0, Fin (1 / 2))], [(Fin (1 / 4), Fin (1 / 2))],
          [(Fin 0, Fin (1 / 2))], [(Fin 1, Fin (1 / 2))],
          [(Fin (1 / 2), Fin 0)], [(Fin (1 / 2), Fin 0)],
          [(Fin (1 / 2), Fin 1)], [(Fin (1 / 2), Fin 1)]]"
  by (simp only: augment_feat_def get_node_example apply_augmentation_example normalize_dihedral_example
      set_node_example sum.case state_augmentation.select_convs if_True)

lemma batchify_td_example:
  "batchify_td \<lparr>td_batch_size = Suc 0, td_data = [''locs'' \<mapsto> [[(Fin (1 / 4), Fin (1 / 2))]]]\<rparr> 8
    = \<lparr>td_batch_size = 8, td_data = [''locs'' \<mapsto> replicate 8 [(Fin (1 / 4), Fin (1 / 2))]]\<rparr>"
  by (simp add: batchify_td_def batchify_example fun_eq_iff)

lemma call_dihedral_example:
  "state_augmentation_call
     \<lparr>self_augmentation = Dihedral8Wrapper, self_feats = [''locs''], self_num_augment = 8,
      self_normalize = True, self_first_aug_identity = True\<rparr>
     rnd \<lparr>td_batch_size = 1, td_data = [''locs'' \<mapsto> [[(Fin (1 / 4), Fin (1 / 2))]]]\<rparr>
   = Inr \<lparr>td_batch_size = 8,
          td_data = [''locs'' \<mapsto> replicate 8 [(Fin (1 / 4), Fin (1 / 2))],
                     ''locs'' \<mapsto> [[(Fin 0, Fin (1 / 2))], [(Fin (1 / 4), Fin (1 / 2))],
                        [(Fin 0, Fin (1 / 2))], [(Fin 1, Fin (1 / 2))],
                        [(Fin (1 / 2), Fin 0)], [(Fin (1 / 2), Fin 0)],
                        [(Fin (1 / 2), Fin 1)], [(Fin (1 / 2), Fin 1)]]]\<rparr>"
  by (simp add: state_augmentation_call_def batchify_td_example augment_feat_example)

text \<open>
  Claim C7 does not hold of the source. The normalization does come after the
  augmentation and before the restoring assignment, but the assignment restores the
  single element \<open>[batch, 0]\<close> (see C1), not the identity slice. With \<open>dihedral8\<close>,
  \<open>normalize\<close> and \<open>first_aug_identity\<close> set and the batch of the one node \<open>(1/4, 1/2)\<close>,
  the first copy in the result is the normalized \<open>(0, 1/2)\<close>, not the original
  \<open>(1/4, 1/2)\<close>; the original value stands in node \<open>0\<close> of the second copy, whose image
  is \<open>(3/4, 1/2)\<close> and whose normalized value is \<open>(1, 1/2)\<close>.
\<close>

theorem normalized_identity_slice_is_not_restored:
  "\<exists>self out.
      state_augmentation_init 8 (FnName ''dihedral8'') True True None = Inr self
    \<and> state_augmentation_call self rnd
        \<lparr>td_batch_size = 1, td_data = [''locs'' \<mapsto> [[(Fin (1 / 4), Fin (1 / 2))]]]\<rparr>
        = Inr out
    \<and> td_data out ''locs''
        = Some [[(Fin 0, Fin (1 / 2))], [(Fin (1 / 4), Fin (1 / 2))],
                [(Fin 0, Fin (1 / 2))], [(Fin 1, Fin (1 / 2))],
                [(Fin (1 / 2), Fin 0)], [(Fin (1 / 2), Fin 0)],
                [(Fin (1 / 2), Fin 1)], [(Fin (1 / 2), Fin 1)]]"
proof -
  have "state_augmentation_init 8 (FnName ''dihedral8'') True True None
      = Inr \<lparr>self_augmentation = Dihedral8Wrapper, self_feats = [''locs''],
             self_num_augment = 8, self_normalize = True, self_first_aug_identity = True\<rparr>"
    by (simp add: state_augmentation_init_def get_augment_function_def)
  with call_dihedral_example [of rnd] show ?thesis
    by simp
qed

text \<open>
  Claim C1 does not hold of the source. The restoring assignment writes the single
  element \<^verbatim>\<open>[*td.size(), 0]\<close>, node \<open>0\<close> of row \<open>batch\<close>, not the rows of the first copy.
  With \<open>first_aug_identity\<close> set, \<open>num_augment = 2\<close> and, as augmentation function, the
  symmetric augmentation with \<open>first_augment\<close> set, the first copy of the instance in the
  result is the rotated one, \<open>(1, 1), (0, 1)\<close>, not the original \<open>(0, 0), (1, 0)\<close>; the one
  element restored is node \<open>0\<close> of the second copy. With the defaults and
  \<open>num_augment = 1\<close> the row \<open>batch\<close> does not exist and the call raises \<^verbatim>\<open>IndexError\<close>.
\<close>

theorem first_aug_identity_restores_a_single_node:
  "(\<exists>self out.
      state_augmentation_init 2
        (FnCallable (Custom (\<lambda>xy n rnd. symmetric_augmentation xy n True rnd))) True False None
        = Inr self
    \<and> state_augmentation_call self (\<lambda>k i. 1 / 4)
        \<lparr>td_batch_size = 1, td_data = [''locs'' \<mapsto> [[(Fin 0, Fin 0), (Fin 1, Fin 0)]]]\<rparr>
        = Inr out
    \<and> td_data out ''locs''
        = Some [[(Fin 1, Fin 1), (Fin 0, Fin 1)], [(Fin 0, Fin 0), (Fin 0, Fin 1)]])
   \<and> (\<exists>self.
      state_augmentation_init 1 (FnName ''symmetric'') True False None = Inr self
    \<and> state_augmentation_call self (\<lambda>k i. 1 / 4)
        \<lparr>td_batch_size = 1, td_data = [''locs'' \<mapsto> [[(Fin 0, Fin 0), (Fin 1, Fin 0)]]]\<rparr>
        = Inl IndexError)"
  by (simp add: state_augmentation_init_def get_augment_function_def
      state_augmentation_call_def batchify_td_def batchify_def augment_feat_def
      get_node_def set_node_def apply_augmentation_def symmetric_example eval_nat_numeral)

end
